theory Spec2Isabelle
  imports Complex_Main
begin

section \<open>Offline text-to-speech application: worker and playback controller\<close>

text \<open>
  A shallow embedding of \<^verbatim>\<open>src/tts_app.py\<close>. The program has a background worker
  (\<^verbatim>\<open>TTSWorker\<close>) that executes commands taken from a queue and answers on a result queue,
  and a foreground controller (\<^verbatim>\<open>OfflineTTSApp\<close>) that owns the buttons and the playback
  flags. Every message of the two queues is a value of a datatype, the two objects are
  records, and every call that leaves the program (network, file system, the synthesis
  engine, the audio device, dialogs) is a field of an environment record whose outcome the
  model branches on, with a raised exception as a value.

  A character of a string stands for the code point of its number; the Python \<^verbatim>\<open>str\<close>
  values of the program are taken to hold code points below 256.
\<close>

subsection \<open>Messages\<close>

text \<open>
  The command dictionaries \<^verbatim>\<open>{'action': 'load_model', 'voice_name': v}\<close>,
  \<^verbatim>\<open>{'action': 'generate', 'text': t, 'file_path': p}\<close> and \<^verbatim>\<open>{'action': 'quit'}\<close>;
  \<^verbatim>\<open>file_path\<close> is \<^verbatim>\<open>None\<close> or a string.
\<close>

datatype command =
  LoadModel string
| Generate string "string option"
| Quit

text \<open>
  The result dictionaries \<^verbatim>\<open>{'type': 'log', 'msg': m}\<close>,
  \<^verbatim>\<open>{'type': 'model_loaded', 'voice': v}\<close> and
  \<^verbatim>\<open>{'type': 'generation_complete', 'file_path': p, 'is_temp': b}\<close>.
\<close>

datatype result =
  Log string
| ModelLoaded string
| GenerationComplete string bool

fun is_log :: "result \<Rightarrow> bool" where
  "is_log (Log m) = True"
| "is_log r = False"


fun is_generation_complete :: "result \<Rightarrow> bool" where
  "is_generation_complete (GenerationComplete p b) = True"
| "is_generation_complete r = False"

subsection \<open>The voice catalog\<close>

record model_info =
  url :: string
  archive :: string
  dir :: string
  onnx :: string

definition MODELS_items :: "(string \<times> model_info) list" where
  "MODELS_items =
    [(''Female (Amy)'',
      \<lparr>url = ''https://github.com/k2-fsa/sherpa-onnx/releases/download/tts-models/vits-piper-en_US-amy-low.tar.bz2'',
       archive = ''vits-piper-en_US-amy-low.tar.bz2'',
       dir = ''vits-piper-en_US-amy-low'',
       onnx = ''en_US-amy-low.onnx''\<rparr>),
     (''Male (Ryan)'',
      \<lparr>url = ''https://github.com/k2-fsa/sherpa-onnx/releases/download/tts-models/vits-piper-en_US-ryan-low.tar.bz2'',
       archive = ''vits-piper-en_US-ryan-low.tar.bz2'',
       dir = ''vits-piper-en_US-ryan-low'',
       onnx = ''en_US-ryan-low.onnx''\<rparr>)]"

definition MODELS :: "string \<Rightarrow> model_info option" where
  "MODELS = map_of MODELS_items"

subsection \<open>Small library functions\<close>

text \<open>\<^verbatim>\<open>os.path.join(a, b)\<close> of \<^verbatim>\<open>posixpath\<close>, for two components.\<close>

definition path_join :: "string \<Rightarrow> string \<Rightarrow> string" where
  "path_join a b =
    (if b \<noteq> [] \<and> hd b = CHR ''/'' then b
     else if a = [] \<or> last a = CHR ''/'' then a @ b
     else a @ ''/'' @ b)"

text \<open>Decimal printing of an integer, as \<^verbatim>\<open>str\<close> does in an f-string.\<close>

fun show_nat :: "nat \<Rightarrow> string" where
  "show_nat n =
    (if n < 10 then [''0123456789'' ! n]
     else show_nat (n div 10) @ [''0123456789'' ! (n mod 10)])"

definition show_int :: "int \<Rightarrow> string" where
  "show_int i = (if i < 0 then ''-'' @ show_nat (nat (- i)) else show_nat (nat i))"

text \<open>
  \<^verbatim>\<open>int(a / b)\<close> for integers \<open>a\<close> and \<open>b \<noteq> 0\<close>: the quotient rounded towards zero.
  The source divides as floating-point numbers, which is this quotient as long as the
  operands are represented exactly (below \<open>2 ^ 53\<close>).
\<close>

definition trunc_div :: "int \<Rightarrow> int \<Rightarrow> int" where
  "trunc_div a b = sgn a * sgn b * (\<bar>a\<bar> div \<bar>b\<bar>)"

text \<open>
  \<^verbatim>\<open>str.isspace\<close> on one character, and \<^verbatim>\<open>str.strip()\<close>. Below 256 the white space of
  Python is the code points 9 to 13, 28 to 32, 133 (next line) and 160 (no-break space).
\<close>

definition py_isspace :: "char \<Rightarrow> bool" where
  "py_isspace c =
    (let n = (of_char c :: nat)
     in (9 \<le> n \<and> n \<le> 13) \<or> (28 \<le> n \<and> n \<le> 32) \<or> n = 133 \<or> n = 160)"

definition strip :: "string \<Rightarrow> string" where
  "strip s = rev (dropWhile py_isspace (rev (dropWhile py_isspace s)))"

text \<open>The single quote of the f-strings.\<close>

definition quote :: "string \<Rightarrow> string" where
  "quote s = [CHR 0x27] @ s @ [CHR 0x27]"

subsection \<open>The worker's collaborators\<close>

text \<open>
  The configuration handed to \<^verbatim>\<open>sherpa_onnx.OfflineTts\<close> (lines 138 to 148), the engine
  built from it, and the audio a synthesis returns. The samples are floating-point numbers;
  nothing below computes with them.
\<close>

record tts_config =
  vits_model :: string
  vits_tokens :: string
  vits_data_dir :: string
  num_threads :: nat
  provider :: string

datatype engine = OfflineTts tts_config

record audio =
  sample_rate :: int
  samples :: "real list"

text \<open>Calls that leave the worker, recorded in the order they are made.\<close>

datatype ext_call =
  CallDownload string string
| CallExtract string
| CallConstruct tts_config
| CallSynthesize engine string
| CallMkstemp string
| CallWrite string


text \<open>
  The world the worker acts on: the paths that exist in the file system, and the calls
  made so far.
\<close>

record world =
  files :: "string list"
  calls :: "ext_call list"

text \<open>
  The environment of the worker. \<open>HAS_TTS\<close> is the module constant set by the import of
  \<^verbatim>\<open>sherpa_onnx\<close>. Every other field is an outside function; an exception it raises is the
  \<open>Inl\<close> (or \<open>Some\<close>) value carrying the exception's text.
  \<^item> \<open>urlretrieve url filename fs\<close>: the calls of the report hook (block number, block
    size, total size), whether it returned without raising, and the files afterwards;
  \<^item> \<open>tar_extractall filename fs\<close>: whether opening and extracting the archive returned
    without raising, and the files afterwards;
  \<^item> \<open>construct cfg fs\<close>: the constructor \<^verbatim>\<open>sherpa_onnx.OfflineTts(config)\<close>;
  \<^item> \<open>synthesize e text\<close>: \<^verbatim>\<open>tts.generate(text, sid=0, speed=1.0)\<close>;
  \<^item> \<open>elapsed e text\<close>: the seconds the synthesis took, already printed with two decimals;
  \<^item> \<open>mkstemp suffix fs\<close>: \<^verbatim>\<open>tempfile.mkstemp(suffix=...)\<close>, the path created and the
    files afterwards;
  \<^item> \<open>wavfile_write path a fs\<close>: \<^verbatim>\<open>scipy.io.wavfile.write\<close>.
\<close>

record env =
  HAS_TTS :: bool
  urlretrieve :: "string \<Rightarrow> string \<Rightarrow> string list \<Rightarrow> (int \<times> int \<times> int) list \<times> bool \<times> string list"
  tar_extractall :: "string \<Rightarrow> string list \<Rightarrow> bool \<times> string list"
  construct :: "tts_config \<Rightarrow> string list \<Rightarrow> string + engine"
  synthesize :: "engine \<Rightarrow> string \<Rightarrow> string + audio"
  elapsed :: "engine \<Rightarrow> string \<Rightarrow> string"
  mkstemp :: "string \<Rightarrow> string list \<Rightarrow> string + (string \<times> string list)"
  wavfile_write :: "string \<Rightarrow> audio \<Rightarrow> string list \<Rightarrow> string option \<times> string list"

definition path_exists :: "world \<Rightarrow> string \<Rightarrow> bool" where
  "path_exists x p = (p \<in> set (files x))"

subsection \<open>Model acquisition (lines 55 to 72)\<close>

text \<open>
  \<^verbatim>\<open>_reporthook\<close>: one message per call of the hook with a positive total size. The
  callback is the worker's \<^verbatim>\<open>log\<close>, which is never \<^verbatim>\<open>None\<close>.
\<close>

definition reporthook :: "int \<times> int \<times> int \<Rightarrow> result list" where
  "reporthook h =
    (case h of (blocknum, blocksize, totalsize) \<Rightarrow>
      if totalsize > 0
      then [Log (''Downloading: '' @ show_int (trunc_div (blocknum * blocksize * 100) totalsize) @ ''%'')]
      else [])"

text \<open>\<^verbatim>\<open>download_file(url, filename, callback)\<close>: the messages logged, and \<open>True\<close> or \<open>False\<close>.\<close>

definition download_file :: "env \<Rightarrow> world \<Rightarrow> string \<Rightarrow> string \<Rightarrow> bool \<times> world \<times> result list" where
  "download_file E x u filename =
    (case urlretrieve E u filename (files x) of
      (hooks, ok, fs) \<Rightarrow>
        (ok, x\<lparr>files := fs, calls := calls x @ [CallDownload u filename]\<rparr>,
         concat (map reporthook hooks)))"

text \<open>\<^verbatim>\<open>extract_file(filename)\<close>: \<open>True\<close>, or \<open>False\<close> when anything was raised.\<close>

definition extract_file :: "env \<Rightarrow> world \<Rightarrow> string \<Rightarrow> bool \<times> world" where
  "extract_file E x filename =
    (case tar_extractall E filename (files x) of
      (ok, fs) \<Rightarrow> (ok, x\<lparr>files := fs, calls := calls x @ [CallExtract filename]\<rparr>))"

subsection \<open>The worker (class \<^verbatim>\<open>TTSWorker\<close>)\<close>

record worker =
  tts :: "engine option"
  current_voice_name :: "string option"
  running :: bool

text \<open>\<^verbatim>\<open>TTSWorker.__init__\<close>.\<close>

definition worker_init :: worker where
  "worker_init = \<lparr>tts = None, current_voice_name = None, running = True\<rparr>"

text \<open>
  Lines 126 to 133 of \<^verbatim>\<open>load_model\<close>: the check for the model file and the download and
  extraction. The first component is \<open>False\<close> where the source returns from \<^verbatim>\<open>load_model\<close>.
  The value \<^verbatim>\<open>extract_file\<close> returns is dropped, as the source drops it.
\<close>

definition ensure_files ::
  "env \<Rightarrow> world \<Rightarrow> string \<Rightarrow> model_info \<Rightarrow> string \<Rightarrow> bool \<times> world \<times> result list" where
  "ensure_files E x voice_name info model_onnx =
    (if \<not> path_exists x model_onnx then
       (let logs0 = [Log (''Downloading '' @ voice_name @ ''...'')] in
        case (if \<not> path_exists x (archive info)
              then download_file E x (url info) (archive info)
              else (True, x, [])) of
          (False, x1, logs1) \<Rightarrow> (False, x1, logs0 @ logs1 @ [Log ''Download failed.''])
        | (True, x1, logs1) \<Rightarrow>
            (True, snd (extract_file E x1 (archive info)), logs0 @ logs1 @ [Log ''Extracting...'']))
     else (True, x, []))"

text \<open>The configuration of lines 138 to 148.\<close>

definition make_config :: "model_info \<Rightarrow> string \<Rightarrow> tts_config" where
  "make_config info model_onnx =
    \<lparr>vits_model = model_onnx,
     vits_tokens = path_join (dir info) ''tokens.txt'',
     vits_data_dir = path_join (dir info) ''espeak-ng-data'',
     num_threads = 1,
     provider = ''cpu''\<rparr>"

text \<open>
  Lines 136 to 155 of \<^verbatim>\<open>load_model\<close>: the \<^verbatim>\<open>try\<close> block that builds the engine and
  installs it, and its \<^verbatim>\<open>except\<close> clause.
\<close>

definition load_engine ::
  "env \<Rightarrow> worker \<Rightarrow> world \<Rightarrow> string \<Rightarrow> model_info \<Rightarrow> string \<Rightarrow> worker \<times> world \<times> result list" where
  "load_engine E w x voice_name info model_onnx =
    (let cfg = make_config info model_onnx;
         x1 = x\<lparr>calls := calls x @ [CallConstruct cfg]\<rparr>
     in case construct E cfg (files x) of
          Inr e \<Rightarrow>
            (w\<lparr>tts := Some e, current_voice_name := Some voice_name\<rparr>, x1,
             [Log ''Loading Engine...'', Log (''Loaded: '' @ voice_name), ModelLoaded voice_name])
        | Inl err \<Rightarrow>
            (w, x1, [Log ''Loading Engine...'', Log (''Error: '' @ err)]))"

text \<open>\<^verbatim>\<open>TTSWorker.load_model\<close> (lines 109 to 155).\<close>

definition load_model :: "env \<Rightarrow> worker \<Rightarrow> world \<Rightarrow> string \<Rightarrow> worker \<times> world \<times> result list" where
  "load_model E w x voice_name =
    (if \<not> HAS_TTS E then (w, x, [Log ''Error: Sherpa-ONNX missing.''])
     else if tts w \<noteq> None \<and> current_voice_name w = Some voice_name then
       (w, x, [Log (''Voice '' @ quote voice_name @ '' already loaded.''), ModelLoaded voice_name])
     else
       (case MODELS voice_name of
          None \<Rightarrow> (w, x, [Log ''Error: Unknown voice.''])
        | Some info \<Rightarrow>
            (let model_onnx = path_join (dir info) (onnx info) in
             case ensure_files E x voice_name info model_onnx of
               (False, x1, logs1) \<Rightarrow> (w, x1, logs1)
             | (True, x1, logs1) \<Rightarrow>
                 (case load_engine E w x1 voice_name info model_onnx of
                    (w', x2, logs2) \<Rightarrow> (w', x2, logs1 @ logs2)))))"

text \<open>
  \<^verbatim>\<open>if not file_path\<close>: \<^verbatim>\<open>None\<close> and the empty string are false.
\<close>

fun falsy :: "string option \<Rightarrow> bool" where
  "falsy None = True"
| "falsy (Some p) = (p = [])"

text \<open>
  Lines 170 to 176 of \<^verbatim>\<open>generate_speech\<close>: the path to write to and whether it is
  temporary. \<^verbatim>\<open>mkstemp\<close> may raise.
\<close>

definition choose_path ::
  "env \<Rightarrow> world \<Rightarrow> string option \<Rightarrow> (string + string \<times> bool) \<times> world" where
  "choose_path E x file_path =
    (if falsy file_path then
       (let x0 = x\<lparr>calls := calls x @ [CallMkstemp ''.wav'']\<rparr> in
        case mkstemp E ''.wav'' (files x) of
          Inl err \<Rightarrow> (Inl err, x0)
        | Inr (p, fs) \<Rightarrow> (Inr (p, True), x0\<lparr>files := fs\<rparr>))
     else (Inr (the file_path, False), x))"

text \<open>
  \<^verbatim>\<open>TTSWorker.generate_speech\<close> (lines 157 to 187). It does not assign to the worker's
  fields, so only the world and the results are returned.
\<close>

definition generate_speech ::
  "env \<Rightarrow> worker \<Rightarrow> world \<Rightarrow> string \<Rightarrow> string option \<Rightarrow> world \<times> result list" where
  "generate_speech E w x text file_path =
    (case tts w of
       None \<Rightarrow> (x, [Log ''Model not loaded.''])
     | Some e \<Rightarrow>
         (let x0 = x\<lparr>calls := calls x @ [CallSynthesize e text]\<rparr> in
          case synthesize E e text of
            Inl err \<Rightarrow> (x0, [Log ''Generating...'', Log (''Gen Error: '' @ err)])
          | Inr a \<Rightarrow>
              (let logs = [Log ''Generating...'', Log (''Done ('' @ elapsed E e text @ ''s)'')] in
               case choose_path E x0 file_path of
                 (Inl err, x1) \<Rightarrow> (x1, logs @ [Log (''Gen Error: '' @ err)])
               | (Inr (p, is_temp), x1) \<Rightarrow>
                   (let x2 = x1\<lparr>calls := calls x1 @ [CallWrite p]\<rparr> in
                    case wavfile_write E p a (files x1) of
                      (Some err, fs) \<Rightarrow> (x2\<lparr>files := fs\<rparr>, logs @ [Log (''Gen Error: '' @ err)])
                    | (None, fs) \<Rightarrow> (x2\<lparr>files := fs\<rparr>, logs @ [GenerationComplete p is_temp])))))"

text \<open>The body of the loop of \<^verbatim>\<open>TTSWorker.run\<close> for one command (lines 97 to 107).\<close>

fun handle :: "env \<Rightarrow> worker \<Rightarrow> world \<Rightarrow> command \<Rightarrow> worker \<times> world \<times> result list" where
  "handle E w x (LoadModel voice_name) = load_model E w x voice_name"
| "handle E w x (Generate text file_path) =
    (case generate_speech E w x text file_path of (x', rs) \<Rightarrow> (w, x', rs))"
| "handle E w x Quit = (w\<lparr>running := False\<rparr>, x, [])"

text \<open>
  The loop of \<^verbatim>\<open>run\<close> over the commands of the queue, in their order; it stops at
  \<^verbatim>\<open>quit\<close>.
\<close>

fun run_loop :: "env \<Rightarrow> worker \<Rightarrow> world \<Rightarrow> command list \<Rightarrow> worker \<times> world \<times> result list" where
  "run_loop E w x [] = (w, x, [])"
| "run_loop E w x (c # cs) =
    (if \<not> running w then (w, x, [])
     else case handle E w x c of
       (w1, x1, rs1) \<Rightarrow>
         (if c = Quit then (w1, x1, rs1)
          else case run_loop E w1 x1 cs of (w2, x2, rs2) \<Rightarrow> (w2, x2, rs1 @ rs2)))"

definition run :: "env \<Rightarrow> world \<Rightarrow> command list \<Rightarrow> worker \<times> world \<times> result list" where
  "run E x cs =
    (case run_loop E worker_init x cs of
       (w, x', rs) \<Rightarrow> (w, x', Log ''Ready. Select a voice to begin.'' # rs))"

text \<open>
  The states the worker can be in: the initial one, and any state after a command, whatever
  the file system holds when the command arrives.
\<close>

inductive worker_reachable :: "env \<Rightarrow> worker \<Rightarrow> bool" for E :: env where
  reach_init: "worker_reachable E worker_init"
| reach_handle: "worker_reachable E w \<Longrightarrow> worker_reachable E (fst (handle E w x c))"

subsection \<open>The controller (class \<^verbatim>\<open>OfflineTTSApp\<close>)\<close>

text \<open>
  Calls to \<^verbatim>\<open>pygame.mixer.music\<close> that returned, and the dialogs shown, in their order.
\<close>

datatype mixer_call = MusicLoad string | MusicPlay | MusicPause | MusicUnpause | MusicStop | MixerQuit

datatype dialog = ShowError string string | ShowInfo string string

text \<open>
  The controller's fields. A button is \<open>True\<close> when its state is \<^verbatim>\<open>tk.NORMAL\<close> and \<open>False\<close>
  when it is \<^verbatim>\<open>tk.DISABLED\<close>. \<open>cmd_queue\<close> holds the commands put so far, oldest first.
\<close>

record app =
  audio_file :: "string option"
  is_playing :: bool
  is_paused :: bool
  cmd_queue :: "command list"
  btn_gen_play :: bool
  btn_pause :: bool
  btn_resume :: bool
  btn_stop :: bool
  btn_ff :: bool
  btn_save :: bool
  lbl_status :: string
  voice_combo :: string
  text_input :: string
  log_text :: string
  mixer :: "mixer_call list"
  dialogs :: "dialog list"

text \<open>
  The environment of the controller: the module constant \<open>HAS_PYGAME\<close>, and the two calls
  of the audio device made inside a \<^verbatim>\<open>try\<close>, each giving the text of the exception it
  raises for a path, if any.
\<close>

record device =
  HAS_PYGAME :: bool
  music_load :: "string \<Rightarrow> string option"
  music_play :: "string \<Rightarrow> string option"

text \<open>\<^verbatim>\<open>__init__\<close> and \<^verbatim>\<open>create_widgets\<close>: every button starts disabled.\<close>

definition app_init :: app where
  "app_init =
    \<lparr>audio_file = None, is_playing = False, is_paused = False, cmd_queue = [],
     btn_gen_play = False, btn_pause = False, btn_resume = False, btn_stop = False,
     btn_ff = False, btn_save = False,
     lbl_status = ''Initializing...'',
     voice_combo = ''Female (Amy)'',
     text_input = ''Hello! This is the new version with media controls and multiple voices. Select '' @ quote ''Male'' @ '' or '' @ quote ''Female'' @ '' above.'',
     log_text = [], mixer = [], dialogs = []\<rparr>"

text \<open>\<^verbatim>\<open>OfflineTTSApp.log\<close> (lines 278 to 282).\<close>

definition app_log :: "app \<Rightarrow> string \<Rightarrow> app" where
  "app_log s msg = s\<lparr>log_text := log_text s @ ''> '' @ msg @ [CHR 0x0A]\<rparr>"

text \<open>\<^verbatim>\<open>update_media_buttons\<close> (lines 359 to 368).\<close>

definition update_media_buttons :: "app \<Rightarrow> app" where
  "update_media_buttons s =
    (let state_play = is_paused s;
         state_pause = (is_playing s \<and> \<not> is_paused s);
         state_stop = is_playing s
     in s\<lparr>btn_pause := state_pause, btn_resume := state_play,
          btn_stop := state_stop, btn_ff := state_stop\<rparr>)"

text \<open>\<^verbatim>\<open>change_voice\<close> (lines 284 to 286).\<close>

definition change_voice :: "app \<Rightarrow> string \<Rightarrow> app" where
  "change_voice s voice_name =
    s\<lparr>btn_gen_play := False, cmd_queue := cmd_queue s @ [LoadModel voice_name]\<rparr>"

text \<open>\<^verbatim>\<open>on_stop\<close> (lines 331 to 336).\<close>

definition on_stop :: "device \<Rightarrow> app \<Rightarrow> app" where
  "on_stop D s =
    (if HAS_PYGAME D then
       update_media_buttons
         (s\<lparr>mixer := mixer s @ [MusicStop], is_playing := False, is_paused := False\<rparr>)
     else s)"

text \<open>\<^verbatim>\<open>on_pause\<close> (lines 319 to 323) and \<^verbatim>\<open>on_resume\<close> (lines 325 to 329).\<close>

definition on_pause :: "device \<Rightarrow> app \<Rightarrow> app" where
  "on_pause D s =
    (if HAS_PYGAME D \<and> is_playing s \<and> \<not> is_paused s then
       update_media_buttons (s\<lparr>mixer := mixer s @ [MusicPause], is_paused := True\<rparr>)
     else s)"

definition on_resume :: "device \<Rightarrow> app \<Rightarrow> app" where
  "on_resume D s =
    (if HAS_PYGAME D \<and> is_paused s then
       update_media_buttons (s\<lparr>mixer := mixer s @ [MusicUnpause], is_paused := False\<rparr>)
     else s)"

text \<open>\<^verbatim>\<open>on_ff\<close> (lines 338 to 357): it only logs.\<close>

definition on_ff :: "device \<Rightarrow> app \<Rightarrow> app" where
  "on_ff D s =
    (if HAS_PYGAME D \<and> is_playing s then app_log s ''Fast Forwarding (Experimental)...'' else s)"

text \<open>\<^verbatim>\<open>on_gen_play\<close> (lines 288 to 294).\<close>

definition on_gen_play :: "device \<Rightarrow> app \<Rightarrow> app" where
  "on_gen_play D s =
    (let text = strip (text_input s) in
     if text \<noteq> [] then
       (let s1 = on_stop D s in
        s1\<lparr>btn_gen_play := False, cmd_queue := cmd_queue s1 @ [Generate text None]\<rparr>)
     else s)"

text \<open>
  \<^verbatim>\<open>on_save\<close> (lines 296 to 301). \<open>f\<close> is what the file dialog returns: the path chosen,
  or the empty string when the dialog is cancelled. The dialog is not opened when the
  text is empty.
\<close>

definition on_save :: "app \<Rightarrow> string \<Rightarrow> app" where
  "on_save s f =
    (let text = strip (text_input s) in
     if text = [] then s
     else if f \<noteq> [] then s\<lparr>cmd_queue := cmd_queue s @ [Generate text (Some f)]\<rparr>
     else s)"

text \<open>\<^verbatim>\<open>load_and_play_audio\<close> (lines 304 to 317).\<close>

definition load_and_play_audio :: "device \<Rightarrow> app \<Rightarrow> string \<Rightarrow> app" where
  "load_and_play_audio D s path =
    (if \<not> HAS_PYGAME D then
       s\<lparr>dialogs := dialogs s @ [ShowError ''Error'' ''Pygame not installed.'']\<rparr>
     else
       (case music_load D path of
          Some err \<Rightarrow> app_log s (''Playback error: '' @ err)
        | None \<Rightarrow>
            (let s1 = s\<lparr>mixer := mixer s @ [MusicLoad path]\<rparr> in
             case music_play D path of
               Some err \<Rightarrow> app_log s1 (''Playback error: '' @ err)
             | None \<Rightarrow>
                 update_media_buttons
                   (s1\<lparr>mixer := mixer s1 @ [MusicPlay], is_playing := True,
                       is_paused := False, audio_file := Some path\<rparr>))))"

text \<open>
  \<^verbatim>\<open>process_worker_results\<close> (lines 370 to 397) on the results waiting in the queue,
  oldest first. It returns the controller and the results left in the queue: the
  \<^verbatim>\<open>return\<close> of line 386 leaves the loop before the queue is empty. The next run is
  scheduled in every case.
\<close>

fun process_worker_results :: "device \<Rightarrow> app \<Rightarrow> result list \<Rightarrow> app \<times> result list" where
  "process_worker_results D s [] = (s, [])"
| "process_worker_results D s (Log msg # rs) =
    process_worker_results D
      ((app_log s msg)\<lparr>lbl_status := drop (length msg - 30) msg\<rparr>) rs"
| "process_worker_results D s (ModelLoaded voice # rs) =
    process_worker_results D
      (s\<lparr>btn_gen_play := True, btn_save := True,
         lbl_status := ''Ready: '' @ voice, voice_combo := voice\<rparr>) rs"
| "process_worker_results D s (GenerationComplete file_path is_temp # rs) =
    (let s1 = s\<lparr>btn_gen_play := True\<rparr> in
     if file_path = [] then (s1, rs)
     else if is_temp then process_worker_results D (load_and_play_audio D s1 file_path) rs
     else process_worker_results D
            (s1\<lparr>dialogs := dialogs s1 @ [ShowInfo ''Saved'' (''File saved: '' @ file_path)]\<rparr>) rs)"

text \<open>\<^verbatim>\<open>on_closing\<close> (lines 399 to 402).\<close>

definition on_closing :: "device \<Rightarrow> app \<Rightarrow> app" where
  "on_closing D s =
    (let s1 = (if HAS_PYGAME D then s\<lparr>mixer := mixer s @ [MixerQuit]\<rparr> else s)
     in s1\<lparr>cmd_queue := cmd_queue s1 @ [Quit]\<rparr>)"

text \<open>
  What can happen to the controller. A button calls its handler only while it is enabled;
  the voice box is read-only and offers the keys of the catalog, it shows the key selected
  and calls \<^verbatim>\<open>change_voice\<close> with it (the call scheduled at start is the selection of the
  first key); the text can be edited at any time; \<open>Poll\<close> is one run of \<^verbatim>\<open>process_worker_results\<close> on the results it finds.
\<close>

datatype event =
  SelectVoice string
| ClickGenPlay
| ClickSave string
| ClickPause
| ClickResume
| ClickStop
| ClickFF
| EditText string
| Poll "result list"
| CloseWindow

fun dispatch :: "device \<Rightarrow> app \<Rightarrow> event \<Rightarrow> app" where
  "dispatch D s (SelectVoice v) =
    (if v \<in> set (map fst MODELS_items) then change_voice (s\<lparr>voice_combo := v\<rparr>) v else s)"
| "dispatch D s ClickGenPlay = (if btn_gen_play s then on_gen_play D s else s)"
| "dispatch D s (ClickSave f) = (if btn_save s then on_save s f else s)"
| "dispatch D s ClickPause = (if btn_pause s then on_pause D s else s)"
| "dispatch D s ClickResume = (if btn_resume s then on_resume D s else s)"
| "dispatch D s ClickStop = (if btn_stop s then on_stop D s else s)"
| "dispatch D s ClickFF = (if btn_ff s then on_ff D s else s)"
| "dispatch D s (EditText t) = s\<lparr>text_input := t\<rparr>"
| "dispatch D s (Poll rs) = fst (process_worker_results D s rs)"
| "dispatch D s CloseWindow = on_closing D s"

inductive reachable :: "device \<Rightarrow> app \<Rightarrow> bool" for D :: device where
  start: "reachable D app_init"
| step: "reachable D s \<Longrightarrow> reachable D (dispatch D s ev)"

text \<open>The playback state the two flags stand for.\<close>

datatype playback_state = Stopped | Playing | Paused

definition playback :: "app \<Rightarrow> playback_state" where
  "playback s = (if is_playing s then (if is_paused s then Paused else Playing) else Stopped)"

subsection \<open>An invariant of the worker\<close>

text \<open>
  An engine is installed only where \<^verbatim>\<open>sherpa_onnx\<close> was imported, and then the current voice
  is a key of the catalog.
\<close>

definition worker_inv :: "env \<Rightarrow> worker \<Rightarrow> bool" where
  "worker_inv E w =
    (case tts w of None \<Rightarrow> True
     | Some e \<Rightarrow> HAS_TTS E \<and> (case current_voice_name w of None \<Rightarrow> False | Some n \<Rightarrow> MODELS n \<noteq> None))"

subsection \<open>Concrete collaborators\<close>

text \<open>
  An environment in which every download and extraction succeeds, the archive holds the
  model file of the first voice only, the constructor needs the model file, and the
  temporary file has one possible name.
\<close>

definition amy_onnx :: string where
  "amy_onnx = ''vits-piper-en_US-amy-low/en_US-amy-low.onnx''"

definition env_ok :: env where
  "env_ok =
    \<lparr>HAS_TTS = True,
     urlretrieve = (\<lambda>u f fs. ([(1, 50, 100)], True, f # fs)),
     tar_extractall = (\<lambda>f fs. (True, amy_onnx # fs)),
     construct = (\<lambda>cfg fs. if vits_model cfg \<in> set fs then Inr (OfflineTts cfg)
                            else Inl ''model file missing''),
     synthesize = (\<lambda>e t. Inr \<lparr>sample_rate = 16000, samples = []\<rparr>),
     elapsed = (\<lambda>e t. ''0.01''),
     mkstemp = (\<lambda>suffix fs. if (''/tmp/tmp0'' @ suffix) \<in> set fs then Inl ''FileExistsError''
                            else Inr (''/tmp/tmp0'' @ suffix, (''/tmp/tmp0'' @ suffix) # fs)),
     wavfile_write = (\<lambda>p a fs. (None, if p \<in> set fs then fs else p # fs))\<rparr>"

definition world_empty :: world where
  "world_empty = \<lparr>files = [], calls = []\<rparr>"

definition amy_config :: tts_config where
  "amy_config =
    \<lparr>vits_model = amy_onnx,
     vits_tokens = ''vits-piper-en_US-amy-low/tokens.txt'',
     vits_data_dir = ''vits-piper-en_US-amy-low/espeak-ng-data'',
     num_threads = 1, provider = ''cpu''\<rparr>"

definition worker_amy :: worker where
  "worker_amy =
    \<lparr>tts = Some (OfflineTts amy_config), current_voice_name = Some ''Female (Amy)'', running = True\<rparr>"

definition world_amy :: world where
  "world_amy =
    \<lparr>files = [amy_onnx, ''vits-piper-en_US-amy-low.tar.bz2''],
     calls = [CallDownload (url (the (MODELS ''Female (Amy)''))) ''vits-piper-en_US-amy-low.tar.bz2'',
              CallExtract ''vits-piper-en_US-amy-low.tar.bz2'',
              CallConstruct amy_config]\<rparr>"


definition ryan_info :: model_info where
  "ryan_info =
    \<lparr>url = ''https://github.com/k2-fsa/sherpa-onnx/releases/download/tts-models/vits-piper-en_US-ryan-low.tar.bz2'',
     archive = ''vits-piper-en_US-ryan-low.tar.bz2'',
     dir = ''vits-piper-en_US-ryan-low'',
     onnx = ''en_US-ryan-low.onnx''\<rparr>"

text \<open>
  The same environment with an archive whose extraction raises after the model file was
  written, with one whose extraction raises before anything was written, and with a
  synthesis that raises.
\<close>

definition env_corrupt :: env where
  "env_corrupt = env_ok\<lparr>tar_extractall := (\<lambda>f fs. (False, amy_onnx # fs))\<rparr>"

definition env_unreadable :: env where
  "env_unreadable = env_ok\<lparr>tar_extractall := (\<lambda>f fs. (False, fs))\<rparr>"

definition env_gen_fails :: env where
  "env_gen_fails = env_ok\<lparr>synthesize := (\<lambda>e t. Inl ''synthesis failed'')\<rparr>"

definition world_archive :: world where
  "world_archive = \<lparr>files = [''vits-piper-en_US-amy-low.tar.bz2''], calls = []\<rparr>"

text \<open>
  What \<^verbatim>\<open>tempfile.mkstemp\<close> promises: the path it returns did not exist and exists
  afterwards.
\<close>

definition mkstemp_fresh :: "env \<Rightarrow> bool" where
  "mkstemp_fresh E =
    (\<forall>suffix fs p fs'. mkstemp E suffix fs = Inr (p, fs') \<longrightarrow> p \<notin> set fs \<and> p \<in> set fs')"

subsection \<open>An invariant of the controller\<close>

text \<open>
  The four transport buttons are what \<^verbatim>\<open>update_media_buttons\<close> makes of the two flags, and
  \<^verbatim>\<open>is_paused\<close> is set only while \<^verbatim>\<open>is_playing\<close> is.
\<close>

definition transport_inv :: "app \<Rightarrow> bool" where
  "transport_inv s =
    ((is_playing s \<or> \<not> is_paused s)
     \<and> btn_pause s = (is_playing s \<and> \<not> is_paused s)
     \<and> btn_resume s = is_paused s
     \<and> btn_stop s = is_playing s
     \<and> btn_ff s = is_playing s)"

definition dev_ok :: device where
  "dev_ok = \<lparr>HAS_PYGAME = True, music_load = (\<lambda>p. None), music_play = (\<lambda>p. None)\<rparr>"

definition dev_missing :: device where
  "dev_missing = \<lparr>HAS_PYGAME = False, music_load = (\<lambda>p. None), music_play = (\<lambda>p. None)\<rparr>"

text \<open>
  An audio device that plays every file, a program without \<^verbatim>\<open>pygame\<close>, and two states of
  the controller: after the first voice was reported loaded, with the text \<^verbatim>\<open>hello\<close>, and
  after a temporary file was reported for it.
\<close>

definition app_ready :: app where
  "app_ready =
    dispatch dev_ok
      (dispatch dev_ok (dispatch dev_ok app_init (EditText ''hello'')) (SelectVoice ''Female (Amy)''))
      (Poll [ModelLoaded ''Female (Amy)''])"

definition app_playing :: app where
  "app_playing = dispatch dev_ok app_ready (Poll [GenerationComplete ''/tmp/tmp0.wav'' True])"

section \<open>Properties of the worker\<close>

subsection \<open>Evaluation and invariant\<close>

lemmas eval_defs =
  load_model_def env_ok_def worker_init_def world_empty_def MODELS_def MODELS_items_def
  path_join_def ensure_files_def path_exists_def download_file_def extract_file_def load_engine_def
  make_config_def reporthook_def show_int_def trunc_div_def amy_onnx_def amy_config_def
  worker_amy_def world_amy_def Let_def generate_speech_def choose_path_def quote_def

lemma MODELS_amy: "MODELS ''Female (Amy)'' \<noteq> None"
  by (simp add: MODELS_def MODELS_items_def)

lemma MODELS_nonexistent: "MODELS ''Nonexistent'' = None"
  by (simp add: MODELS_def MODELS_items_def)

lemma worker_inv_init: "worker_inv E worker_init"
  by (simp add: worker_inv_def worker_init_def)

lemma load_engine_inv:
  "HAS_TTS E \<Longrightarrow> MODELS n = Some info \<Longrightarrow> worker_inv E w \<Longrightarrow>
   worker_inv E (fst (load_engine E w x n info p))"
  by (auto simp: load_engine_def worker_inv_def Let_def split: sum.splits option.splits)

text \<open>The four ways through \<^verbatim>\<open>load_model\<close>.\<close>

lemma load_model_cases:
  obtains
    (missing) "\<not> HAS_TTS E"
      "load_model E w x n = (w, x, [Log ''Error: Sherpa-ONNX missing.''])"
  | (fast) "HAS_TTS E" "tts w \<noteq> None" "current_voice_name w = Some n"
      "load_model E w x n =
        (w, x, [Log (''Voice '' @ quote n @ '' already loaded.''), ModelLoaded n])"
  | (unknown) "HAS_TTS E" "\<not> (tts w \<noteq> None \<and> current_voice_name w = Some n)" "MODELS n = None"
      "load_model E w x n = (w, x, [Log ''Error: Unknown voice.''])"
  | (nofiles) info x1 logs1 where "HAS_TTS E"
      "\<not> (tts w \<noteq> None \<and> current_voice_name w = Some n)" "MODELS n = Some info"
      "ensure_files E x n info (path_join (dir info) (onnx info)) = (False, x1, logs1)"
      "load_model E w x n = (w, x1, logs1)"
  | (engine) info x1 logs1 w' x2 logs2 where "HAS_TTS E"
      "\<not> (tts w \<noteq> None \<and> current_voice_name w = Some n)" "MODELS n = Some info"
      "ensure_files E x n info (path_join (dir info) (onnx info)) = (True, x1, logs1)"
      "load_engine E w x1 n info (path_join (dir info) (onnx info)) = (w', x2, logs2)"
      "load_model E w x n = (w', x2, logs1 @ logs2)"
proof (cases "HAS_TTS E")
  case False
  then show ?thesis using missing by (simp add: load_model_def)
next
  case has: True
  show ?thesis
  proof (cases "tts w \<noteq> None \<and> current_voice_name w = Some n")
    case True
    then show ?thesis using has fast by (simp add: load_model_def)
  next
    case nf: False
    show ?thesis
    proof (cases "MODELS n")
      case None
      then show ?thesis using has nf unknown by (auto simp: load_model_def)
    next
      case (Some info)
      obtain ok x1 logs1 where
        ef: "ensure_files E x n info (path_join (dir info) (onnx info)) = (ok, x1, logs1)"
        by (cases "ensure_files E x n info (path_join (dir info) (onnx info))") auto
      show ?thesis
      proof (cases ok)
        case False
        with ef have ef': "ensure_files E x n info (path_join (dir info) (onnx info)) = (False, x1, logs1)"
          by simp
        with Some has nf have "load_model E w x n = (w, x1, logs1)"
          by (auto simp: load_model_def)
        then show ?thesis by (rule nofiles[OF has nf Some ef'])
      next
        case True
        obtain w' x2 logs2 where
          le: "load_engine E w x1 n info (path_join (dir info) (onnx info)) = (w', x2, logs2)"
          by (cases "load_engine E w x1 n info (path_join (dir info) (onnx info))") auto
        from True ef have ef': "ensure_files E x n info (path_join (dir info) (onnx info)) = (True, x1, logs1)"
          by simp
        with le Some has nf have "load_model E w x n = (w', x2, logs1 @ logs2)"
          by (auto simp: load_model_def)
        then show ?thesis by (rule engine[OF has nf Some ef' le])
      qed
    qed
  qed
qed

lemma load_model_inv:
  assumes "worker_inv E w"
  shows "worker_inv E (fst (load_model E w x n))"
proof (cases rule: load_model_cases[of E w x n])
  case (engine info x1 logs1 w' x2 logs2)
  then show ?thesis
    using load_engine_inv[of E n info w x1 "path_join (dir info) (onnx info)"] assms by simp
qed (use assms in simp_all)

lemma handle_inv:
  assumes "worker_inv E w"
  shows "worker_inv E (fst (handle E w x c))"
proof (cases c)
  case (LoadModel v)
  then show ?thesis using assms by (simp add: load_model_inv)
next
  case (Generate t p)
  then show ?thesis using assms by (simp split: prod.splits)
next
  case Quit
  then show ?thesis using assms by (auto simp: worker_inv_def split: option.splits)
qed

lemma reachable_worker_inv: "worker_reachable E w \<Longrightarrow> worker_inv E w"
  by (induction rule: worker_reachable.induct) (auto intro: worker_inv_init handle_inv)




lemma reporthook_logs: "\<forall>r \<in> set (concat (map reporthook hs)). is_log r"
  by (induction hs) (auto simp: reporthook_def)





lemma logs_no_model_loaded: "\<forall>r \<in> set rs. is_log r \<Longrightarrow> ModelLoaded n \<notin> set rs"
  by auto


lemma load_amy:
  "load_model env_ok worker_init world_empty ''Female (Amy)'' =
    (worker_amy, world_amy,
     [Log ''Downloading Female (Amy)...'', Log ''Downloading: 50%'', Log ''Extracting...'',
      Log ''Loading Engine...'', Log ''Loaded: Female (Amy)'', ModelLoaded ''Female (Amy)''])"
  by (simp add: eval_defs)

lemma reach_amy: "worker_reachable env_ok worker_amy"
  using reach_handle[OF reach_init, of env_ok world_empty "LoadModel ''Female (Amy)''"]
  by (simp add: load_amy)

subsection \<open>Loading the voice that is already loaded\<close>




subsection \<open>Generating before a voice is loaded\<close>

text \<open>
  Claim C4. While no engine is installed, a \<^verbatim>\<open>generate\<close> command puts exactly one result,
  the log message \<^verbatim>\<open>Model not loaded.\<close>, and returns: the world is left as it was, nothing
  is synthesised and no \<^verbatim>\<open>generation_complete\<close> result is put.
\<close>

theorem generate_speech_not_loaded:
  assumes "tts w = None"
  shows "generate_speech E w x text file_path = (x, [Log ''Model not loaded.''])
     \<and> handle E w x (Generate text file_path) = (w, x, [Log ''Model not loaded.''])"
  using assms by (simp add: generate_speech_def)

theorem generate_speech_not_loaded_witness:
  "generate_speech env_ok worker_init world_empty ''hello'' None =
     (world_empty, [Log ''Model not loaded.''])
   \<and> run env_ok world_empty [Generate ''hello'' None] =
     (worker_init, world_empty, [Log ''Ready. Select a voice to begin.'', Log ''Model not loaded.''])"
proof -
  have n: "tts worker_init = None" by (simp add: worker_init_def)
  have r: "running worker_init" by (simp add: worker_init_def)
  show ?thesis
    using generate_speech_not_loaded[OF n, of env_ok world_empty "''hello''" None] r
    by (simp add: run_def)
qed

subsection \<open>A voice that is not in the catalog\<close>

text \<open>
  Claim C6. In every state the worker can reach, a \<^verbatim>\<open>load_model\<close> command for a name that
  is not a key of \<^verbatim>\<open>MODELS\<close> puts exactly one result, a log message that starts with
  \<^verbatim>\<open>Error\<close>, and changes neither the worker nor the world; no \<^verbatim>\<open>model_loaded\<close> result is
  put.
\<close>

theorem load_model_unknown_voice:
  assumes "worker_reachable E w" "MODELS name = None"
  shows "load_model E w x name =
      (w, x, [Log (if HAS_TTS E then ''Error: Unknown voice.'' else ''Error: Sherpa-ONNX missing.'')])"
proof (cases rule: load_model_cases[of E w x name])
  case fast
  then show ?thesis
    using reachable_worker_inv[OF assms(1)] assms(2)
    by (auto simp: worker_inv_def split: option.splits)
qed (use assms in simp_all)

theorem load_model_unknown_voice_witness:
  "load_model env_ok worker_amy world_amy ''Nonexistent'' =
     (worker_amy, world_amy, [Log ''Error: Unknown voice.''])"
  using load_model_unknown_voice[OF reach_amy MODELS_nonexistent, of world_amy]
  by (simp add: env_ok_def)

subsection \<open>An engine constructor that raises\<close>

text \<open>
  Claim C10. When a \<^verbatim>\<open>load_model\<close> command reaches the construction of the engine and the
  constructor raises, the command logs the error and leaves \<^verbatim>\<open>tts\<close> and
  \<^verbatim>\<open>current_voice_name\<close> as they were, so a \<^verbatim>\<open>generate\<close> command after it does what it
  would have done before it: with an engine installed earlier it still synthesises with
  that engine.
\<close>

theorem load_model_constructor_raises:
  assumes "HAS_TTS E"
    and "\<not> (tts w \<noteq> None \<and> current_voice_name w = Some name)"
    and "MODELS name = Some info"
    and "ensure_files E x name info (path_join (dir info) (onnx info)) = (True, x1, logs1)"
    and "construct E (make_config info (path_join (dir info) (onnx info))) (files x1) = Inl err"
  shows "load_model E w x name =
      (w, x1\<lparr>calls := calls x1 @ [CallConstruct (make_config info (path_join (dir info) (onnx info)))]\<rparr>,
       logs1 @ [Log ''Loading Engine...'', Log (''Error: '' @ err)])
    \<and> tts (fst (load_model E w x name)) = tts w
    \<and> current_voice_name (fst (load_model E w x name)) = current_voice_name w
    \<and> generate_speech E (fst (load_model E w x name)) y text file_path =
        generate_speech E w y text file_path"
proof -
  have "load_engine E w x1 name info (path_join (dir info) (onnx info)) =
      (w, x1\<lparr>calls := calls x1 @ [CallConstruct (make_config info (path_join (dir info) (onnx info)))]\<rparr>,
       [Log ''Loading Engine...'', Log (''Error: '' @ err)])"
    using assms(5) by (simp add: load_engine_def Let_def)
  then have "load_model E w x name =
      (w, x1\<lparr>calls := calls x1 @ [CallConstruct (make_config info (path_join (dir info) (onnx info)))]\<rparr>,
       logs1 @ [Log ''Loading Engine...'', Log (''Error: '' @ err)])"
    using assms(1-4) by (auto simp: load_model_def)
  then show ?thesis by simp
qed


lemma MODELS_ryan: "MODELS ''Male (Ryan)'' = Some ryan_info"
  by (simp add: MODELS_def MODELS_items_def ryan_info_def)

theorem load_model_constructor_raises_witness:
  "tts (fst (load_model env_ok worker_amy world_amy ''Male (Ryan)'')) = Some (OfflineTts amy_config)
   \<and> current_voice_name (fst (load_model env_ok worker_amy world_amy ''Male (Ryan)'')) = Some ''Female (Amy)''
   \<and> snd (snd (load_model env_ok worker_amy world_amy ''Male (Ryan)'')) =
       [Log ''Downloading Male (Ryan)...'', Log ''Downloading: 50%'', Log ''Extracting...'',
        Log ''Loading Engine...'', Log ''Error: model file missing'']
   \<and> snd (generate_speech env_ok (fst (load_model env_ok worker_amy world_amy ''Male (Ryan)''))
          world_amy ''hello'' (Some ''/out.wav'')) =
       [Log ''Generating...'', Log ''Done (0.01s)'', GenerationComplete ''/out.wav'' False]"
proof -
  let ?p = "path_join (dir ryan_info) (onnx ryan_info)"
  let ?r = "ensure_files env_ok world_amy ''Male (Ryan)'' ryan_info ?p"
  have h1: "HAS_TTS env_ok" by (simp add: env_ok_def)
  have h2: "\<not> (tts worker_amy \<noteq> None \<and> current_voice_name worker_amy = Some ''Male (Ryan)'')"
    by (simp add: worker_amy_def)
  have h4: "?r = (True, fst (snd ?r), snd (snd ?r))"
    by (simp add: eval_defs ryan_info_def)
  have h5: "construct env_ok (make_config ryan_info ?p) (files (fst (snd ?r))) = Inl ''model file missing''"
    by (simp add: eval_defs ryan_info_def)
  have l: "snd (snd ?r) =
      [Log ''Downloading Male (Ryan)...'', Log ''Downloading: 50%'', Log ''Extracting...'']"
    by (simp add: eval_defs ryan_info_def)
  have g: "snd (generate_speech env_ok worker_amy world_amy ''hello'' (Some ''/out.wav'')) =
       [Log ''Generating...'', Log ''Done (0.01s)'', GenerationComplete ''/out.wav'' False]"
    by (simp add: eval_defs)
  show ?thesis
    using load_model_constructor_raises[OF h1 h2 MODELS_ryan h4 h5, of world_amy "''hello''" "Some ''/out.wav''"] l g
    by (simp add: worker_amy_def)
qed

subsection \<open>The path of the generated audio\<close>

lemma choose_path_falsy:
  assumes "falsy file_path"
  shows "choose_path E x file_path =
    (case mkstemp E ''.wav'' (files x) of
       Inl err \<Rightarrow> (Inl err, x\<lparr>calls := calls x @ [CallMkstemp ''.wav'']\<rparr>)
     | Inr (p, fs) \<Rightarrow> (Inr (p, True), x\<lparr>calls := calls x @ [CallMkstemp ''.wav''], files := fs\<rparr>))"
  using assms by (simp add: choose_path_def Let_def split: sum.splits prod.splits)

lemma choose_path_given:
  "p \<noteq> [] \<Longrightarrow> choose_path E x (Some p) = (Inr (p, False), x)"
  by (simp add: choose_path_def)

lemma choose_path_result:
  assumes "choose_path E x file_path = (Inr (p, b), x1)"
  shows "(falsy file_path \<longrightarrow> b \<and> (\<exists>fs. mkstemp E ''.wav'' (files x) = Inr (p, fs)))
       \<and> (\<not> falsy file_path \<longrightarrow> \<not> b \<and> file_path = Some p)"
  using assms
  by (cases file_path) (auto simp: choose_path_def Let_def split: sum.splits prod.splits if_splits)

text \<open>
  Claim C7. Whenever a \<^verbatim>\<open>generate\<close> command puts a \<^verbatim>\<open>generation_complete\<close> result, it puts
  exactly one. If the command's path is absent (\<^verbatim>\<open>None\<close> or empty), the result carries the
  path \<^verbatim>\<open>mkstemp\<close> returned for the suffix \<^verbatim>\<open>.wav\<close>, marked temporary, and that path did
  not exist before when \<^verbatim>\<open>mkstemp\<close> keeps its promise; if a path is given, the result
  carries that path, marked not temporary. And the result is put whenever the synthesis, the
  choice of the path and the writing of the file all succeed.
\<close>

theorem generate_speech_audio_ready:
  assumes "generate_speech E w x text file_path = (x', rs)"
  shows "(\<forall>p b. GenerationComplete p b \<in> set rs \<longrightarrow>
            filter is_generation_complete rs = [GenerationComplete p b]
            \<and> (falsy file_path \<longrightarrow>
                 b \<and> (\<exists>fs. mkstemp E ''.wav'' (files x) = Inr (p, fs))
                 \<and> (mkstemp_fresh E \<longrightarrow> \<not> path_exists x p))
            \<and> (\<not> falsy file_path \<longrightarrow> \<not> b \<and> file_path = Some p))
       \<and> (\<forall>e a p b x1 fs. tts w = Some e \<and> synthesize E e text = Inr a
            \<and> choose_path E (x\<lparr>calls := calls x @ [CallSynthesize e text]\<rparr>) file_path = (Inr (p, b), x1)
            \<and> wavfile_write E p a (files x1) = (None, fs) \<longrightarrow>
            rs = [Log ''Generating...'', Log (''Done ('' @ elapsed E e text @ ''s)''),
                  GenerationComplete p b])"
proof (intro conjI allI impI)
  fix p b
  assume g: "GenerationComplete p b \<in> set rs"
  from assms g obtain e a x1 fs where
    e: "tts w = Some e" and a: "synthesize E e text = Inr a"
    and c: "choose_path E (x\<lparr>calls := calls x @ [CallSynthesize e text]\<rparr>) file_path = (Inr (p, b), x1)"
    and r: "rs = [Log ''Generating...'', Log (''Done ('' @ elapsed E e text @ ''s)''),
                  GenerationComplete p b]"
    by (auto simp: generate_speech_def Let_def split: option.splits sum.splits prod.splits)
  show "filter is_generation_complete rs = [GenerationComplete p b]" using r by simp
  { assume f: "falsy file_path"
    from choose_path_result[OF c] f
    show "b" by simp
    from choose_path_result[OF c] f
    show m: "\<exists>fs. mkstemp E ''.wav'' (files x) = Inr (p, fs)" by simp
    { assume "mkstemp_fresh E"
      with m show "\<not> path_exists x p" by (auto simp: mkstemp_fresh_def path_exists_def) } }
  { assume f: "\<not> falsy file_path"
    from choose_path_result[OF c] f show "\<not> b" by simp
    from choose_path_result[OF c] f show "file_path = Some p" by simp }
next
  fix e a p b x1 fs
  assume "tts w = Some e \<and> synthesize E e text = Inr a
            \<and> choose_path E (x\<lparr>calls := calls x @ [CallSynthesize e text]\<rparr>) file_path = (Inr (p, b), x1)
            \<and> wavfile_write E p a (files x1) = (None, fs)"
  then show "rs = [Log ''Generating...'', Log (''Done ('' @ elapsed E e text @ ''s)''),
                  GenerationComplete p b]"
    using assms by (auto simp: generate_speech_def Let_def)
qed


lemma mkstemp_fresh_env_ok: "mkstemp_fresh env_ok"
  by (auto simp: mkstemp_fresh_def env_ok_def split: if_splits)

theorem generate_speech_audio_ready_witness:
  "snd (generate_speech env_ok worker_amy world_amy ''hello'' None) =
     [Log ''Generating...'', Log ''Done (0.01s)'', GenerationComplete ''/tmp/tmp0.wav'' True]
   \<and> \<not> path_exists world_amy ''/tmp/tmp0.wav''
   \<and> snd (generate_speech env_ok worker_amy world_amy ''hello'' (Some ''/out.wav'')) =
     [Log ''Generating...'', Log ''Done (0.01s)'', GenerationComplete ''/out.wav'' False]
   \<and> filter is_generation_complete (snd (generate_speech env_ok worker_amy world_amy ''hello'' None)) =
     [GenerationComplete ''/tmp/tmp0.wav'' True]"
proof -
  let ?g1 = "generate_speech env_ok worker_amy world_amy ''hello'' None"
  let ?g2 = "generate_speech env_ok worker_amy world_amy ''hello'' (Some ''/out.wav'')"
  have e1: "?g1 = (fst ?g1, snd ?g1)" and e2: "?g2 = (fst ?g2, snd ?g2)" by simp_all
  have t: "tts worker_amy = Some (OfflineTts amy_config)" by (simp add: worker_amy_def)
  have sy: "synthesize env_ok (OfflineTts amy_config) ''hello'' = Inr \<lparr>sample_rate = 16000, samples = []\<rparr>"
    by (simp add: env_ok_def)
  let ?x0 = "world_amy\<lparr>calls := calls world_amy @ [CallSynthesize (OfflineTts amy_config) ''hello'']\<rparr>"
  have c1: "choose_path env_ok ?x0 None =
      (Inr (''/tmp/tmp0.wav'', True), snd (choose_path env_ok ?x0 None))"
    by (simp add: eval_defs)
  have w1: "wavfile_write env_ok ''/tmp/tmp0.wav'' \<lparr>sample_rate = 16000, samples = []\<rparr>
       (files (snd (choose_path env_ok ?x0 None))) =
      (None, snd (wavfile_write env_ok ''/tmp/tmp0.wav'' \<lparr>sample_rate = 16000, samples = []\<rparr>
       (files (snd (choose_path env_ok ?x0 None)))))"
    by (simp add: env_ok_def)
  have c2: "choose_path env_ok ?x0 (Some ''/out.wav'') = (Inr (''/out.wav'', False), ?x0)"
    by (simp add: choose_path_def)
  have w2: "wavfile_write env_ok ''/out.wav'' \<lparr>sample_rate = 16000, samples = []\<rparr> (files ?x0) =
      (None, snd (wavfile_write env_ok ''/out.wav'' \<lparr>sample_rate = 16000, samples = []\<rparr> (files ?x0)))"
    by (simp add: env_ok_def)
  have el: "elapsed env_ok e t = ''0.01''" for e t by (simp add: env_ok_def)
  have r1: "snd ?g1 = [Log ''Generating...'', Log ''Done (0.01s)'', GenerationComplete ''/tmp/tmp0.wav'' True]"
    using generate_speech_audio_ready[OF e1, THEN conjunct2, rule_format,
        OF conjI[OF t conjI[OF sy conjI[OF c1 w1]]]]
    by (simp add: el)
  have r2: "snd ?g2 = [Log ''Generating...'', Log ''Done (0.01s)'', GenerationComplete ''/out.wav'' False]"
    using generate_speech_audio_ready[OF e2, THEN conjunct2, rule_format,
        OF conjI[OF t conjI[OF sy conjI[OF c2 w2]]]]
    by (simp add: el)
  have m: "GenerationComplete ''/tmp/tmp0.wav'' True \<in> set (snd ?g1)" using r1 by simp
  have f: "\<not> path_exists world_amy ''/tmp/tmp0.wav''
      \<and> filter is_generation_complete (snd ?g1) = [GenerationComplete ''/tmp/tmp0.wav'' True]"
    using generate_speech_audio_ready[OF e1] m mkstemp_fresh_env_ok by simp
  show ?thesis using r1 r2 f by simp
qed

subsection \<open>An extraction that fails\<close>

text \<open>
  \<^verbatim>\<open>load_model\<close> does not look at what \<^verbatim>\<open>extract_file\<close> returns: with any other answer in
  its place the command does the same.
\<close>

lemma download_file_extract_flag:
  "download_file (E\<lparr>tar_extractall := t\<rparr>) x u f = download_file E x u f"
  by (simp add: download_file_def)

lemma extract_file_flag:
  "snd (extract_file (E\<lparr>tar_extractall := (\<lambda>f fs. (b f fs, snd (tar_extractall E f fs)))\<rparr>) x f) =
   snd (extract_file E x f)"
  by (simp add: extract_file_def split_beta)

lemma ensure_files_extract_flag:
  "ensure_files (E\<lparr>tar_extractall := (\<lambda>f fs. (b f fs, snd (tar_extractall E f fs)))\<rparr>) x n info p =
   ensure_files E x n info p"
  unfolding ensure_files_def download_file_extract_flag extract_file_flag ..

lemma load_engine_extract_flag:
  "load_engine (E\<lparr>tar_extractall := t\<rparr>) w x n info p = load_engine E w x n info p"
  by (simp add: load_engine_def)

lemma extract_result_dropped:
  "load_model (E\<lparr>tar_extractall := (\<lambda>f fs. (b f fs, snd (tar_extractall E f fs)))\<rparr>) w x n =
   load_model E w x n"
  unfolding load_model_def ensure_files_extract_flag load_engine_extract_flag by simp

text \<open>
  Claim C5, at an archive that is present and cannot be extracted. The claim asks for a log
  message about the failed step and for no \<^verbatim>\<open>model_loaded\<close> result. Where the model file
  was written before the extraction raised, the command reports the voice as loaded; where
  nothing was written, the only error logged is the constructor's. In both, no message
  reports that the extraction failed.
\<close>

theorem failed_extraction_not_reported:
  "fst (extract_file env_corrupt
          world_archive
          ''vits-piper-en_US-amy-low.tar.bz2'') = False
   \<and> snd (snd (load_model env_corrupt worker_init
          world_archive ''Female (Amy)'')) =
       [Log ''Downloading Female (Amy)...'', Log ''Extracting...'', Log ''Loading Engine...'',
        Log ''Loaded: Female (Amy)'', ModelLoaded ''Female (Amy)'']
   \<and> fst (extract_file env_unreadable
          world_archive
          ''vits-piper-en_US-amy-low.tar.bz2'') = False
   \<and> snd (snd (load_model env_unreadable worker_init
          world_archive ''Female (Amy)'')) =
       [Log ''Downloading Female (Amy)...'', Log ''Extracting...'', Log ''Loading Engine...'',
        Log ''Error: model file missing'']"
  by (simp add: eval_defs env_corrupt_def env_unreadable_def world_archive_def)

text \<open>A download that fails is reported, and the command stops there.\<close>

lemma download_failure_reported:
  assumes "HAS_TTS E" "tts w = None" "MODELS n = Some info"
    "\<not> path_exists x (path_join (dir info) (onnx info))" "\<not> path_exists x (archive info)"
    "fst (snd (urlretrieve E (url info) (archive info) (files x))) = False"
  shows "\<exists>logs. snd (snd (load_model E w x n)) = logs @ [Log ''Download failed.'']
           \<and> list_all is_log logs \<and> fst (load_model E w x n) = w"
  using assms reporthook_logs
  by (auto simp: load_model_def ensure_files_def download_file_def Let_def split_beta list_all_iff)

section \<open>Properties of the controller\<close>

subsection \<open>Evaluation and invariant\<close>

lemmas app_eval_defs =
  app_ready_def app_playing_def dev_ok_def dev_missing_def app_init_def change_voice_def
  on_gen_play_def on_save_def on_stop_def on_pause_def on_resume_def on_ff_def
  load_and_play_audio_def update_media_buttons_def app_log_def playback_def
  strip_def py_isspace_def quote_def MODELS_items_def Let_def

lemma strip_hello: "strip ''hello'' = ''hello''"
  by (simp add: strip_def py_isspace_def)

lemma reachable_app_ready: "reachable dev_ok app_ready"
  unfolding app_ready_def by (intro step start)

lemma reachable_app_playing: "reachable dev_ok app_playing"
  unfolding app_playing_def by (intro step reachable_app_ready)

lemma transport_inv_init: "transport_inv app_init"
  by (simp add: transport_inv_def app_init_def)

lemma transport_inv_update:
  "is_playing s \<or> \<not> is_paused s \<Longrightarrow> transport_inv (update_media_buttons s)"
  by (auto simp: transport_inv_def update_media_buttons_def Let_def)

lemma transport_inv_app_log: "transport_inv (app_log s m) = transport_inv s"
  by (simp add: transport_inv_def app_log_def)

lemma transport_inv_on_stop: "transport_inv s \<Longrightarrow> transport_inv (on_stop D s)"
  by (simp add: on_stop_def transport_inv_update)

lemma transport_inv_on_pause: "transport_inv s \<Longrightarrow> transport_inv (on_pause D s)"
  by (simp add: on_pause_def transport_inv_update)

lemma transport_inv_on_resume: "transport_inv s \<Longrightarrow> transport_inv (on_resume D s)"
  by (simp add: on_resume_def transport_inv_update)

lemma transport_inv_on_ff: "transport_inv s \<Longrightarrow> transport_inv (on_ff D s)"
  by (simp add: on_ff_def transport_inv_app_log)

lemma transport_inv_on_gen_play: "transport_inv s \<Longrightarrow> transport_inv (on_gen_play D s)"
  using transport_inv_on_stop[of s D]
  by (simp add: on_gen_play_def Let_def transport_inv_def)

lemma transport_inv_on_save: "transport_inv s \<Longrightarrow> transport_inv (on_save s f)"
  by (simp add: on_save_def Let_def transport_inv_def)

lemma transport_inv_change_voice: "transport_inv s \<Longrightarrow> transport_inv (change_voice s v)"
  by (simp add: change_voice_def transport_inv_def)

lemma transport_inv_on_closing: "transport_inv s \<Longrightarrow> transport_inv (on_closing D s)"
  by (simp add: on_closing_def Let_def transport_inv_def)

lemma transport_inv_load_and_play:
  "transport_inv s \<Longrightarrow> transport_inv (load_and_play_audio D s p)"
  by (auto simp: load_and_play_audio_def Let_def transport_inv_app_log transport_inv_update
      split: option.splits) (simp_all add: transport_inv_def)

lemma transport_inv_process:
  "transport_inv s \<Longrightarrow> transport_inv (fst (process_worker_results D s rs))"
proof (induction D s rs rule: process_worker_results.induct)
  case (1 D s)
  then show ?case by simp
next
  case (2 D s msg rs)
  have "transport_inv ((app_log s msg)\<lparr>lbl_status := drop (length msg - 30) msg\<rparr>)"
    using 2(2) by (simp add: transport_inv_def app_log_def)
  then show ?case using 2(1) by simp
next
  case (3 D s voice rs)
  have "transport_inv (s\<lparr>btn_gen_play := True, btn_save := True,
         lbl_status := ''Ready: '' @ voice, voice_combo := voice\<rparr>)"
    using 3(2) by (simp add: transport_inv_def)
  then show ?case using 3(1) by simp
next
  case (4 D s file_path is_temp rs)
  let ?s1 = "s\<lparr>btn_gen_play := True\<rparr>"
  have s1: "transport_inv ?s1" using 4(3) by (simp add: transport_inv_def)
  show ?case
  proof (cases "file_path = []")
    case True
    then show ?thesis using s1 by simp
  next
    case ne: False
    show ?thesis
    proof (cases is_temp)
      case True
      then show ?thesis
        using ne 4(1)[OF refl ne True] transport_inv_load_and_play[OF s1] by simp
    next
      case False
      have "transport_inv (?s1\<lparr>dialogs := dialogs ?s1 @ [ShowInfo ''Saved'' (''File saved: '' @ file_path)]\<rparr>)"
        using s1 by (simp add: transport_inv_def)
      then show ?thesis using ne False 4(2)[OF refl ne False] by simp
    qed
  qed
qed

lemma transport_inv_dispatch:
  assumes "transport_inv s"
  shows "transport_inv (dispatch D s ev)"
proof (cases ev)
  case (SelectVoice v)
  have "transport_inv (s\<lparr>voice_combo := v\<rparr>)" using assms by (simp add: transport_inv_def)
  then show ?thesis using assms SelectVoice by (simp add: transport_inv_change_voice)
next
  case (EditText t)
  then show ?thesis using assms by (simp add: transport_inv_def)
qed (use assms in \<open>simp_all add: transport_inv_on_stop transport_inv_on_pause
      transport_inv_on_resume transport_inv_on_ff transport_inv_on_gen_play
      transport_inv_on_save transport_inv_on_closing transport_inv_process\<close>)

lemma reachable_transport_inv: "reachable D s \<Longrightarrow> transport_inv s"
  by (induction rule: reachable.induct) (simp_all add: transport_inv_init transport_inv_dispatch)

subsection \<open>Transport buttons and playback state\<close>

text \<open>
  Claim C2. In every state the controller can reach: when playback is stopped, Pause and
  Resume are disabled; when it is playing, Pause and Stop are enabled and Resume is
  disabled; when it is paused, Resume and Stop are enabled and Pause is disabled. So a
  click on Pause changes the controller only while playing, a click on Resume only while
  paused, and a click on Stop only while playing or paused.
\<close>

theorem transport_buttons_match_playback:
  assumes "reachable D s"
  shows "(case playback s of
            Stopped \<Rightarrow> \<not> btn_pause s \<and> \<not> btn_resume s \<and> \<not> is_paused s
          | Playing \<Rightarrow> btn_pause s \<and> btn_stop s \<and> \<not> btn_resume s
          | Paused \<Rightarrow> btn_resume s \<and> btn_stop s \<and> \<not> btn_pause s)
       \<and> (dispatch D s ClickPause \<noteq> s \<longrightarrow> playback s = Playing)
       \<and> (dispatch D s ClickResume \<noteq> s \<longrightarrow> playback s = Paused)
       \<and> (dispatch D s ClickStop \<noteq> s \<longrightarrow> playback s = Playing \<or> playback s = Paused)"
  using reachable_transport_inv[OF assms]
  by (auto simp: transport_inv_def playback_def)


theorem transport_buttons_match_playback_witness:
  "playback app_init = Stopped \<and> \<not> btn_pause app_init \<and> \<not> btn_resume app_init
   \<and> playback app_playing = Playing \<and> btn_pause app_playing \<and> btn_stop app_playing
   \<and> \<not> btn_resume app_playing
   \<and> playback (dispatch dev_ok app_playing ClickPause) = Paused
   \<and> btn_resume (dispatch dev_ok app_playing ClickPause)
   \<and> btn_stop (dispatch dev_ok app_playing ClickPause)
   \<and> \<not> btn_pause (dispatch dev_ok app_playing ClickPause)"
proof -
  have p0: "playback app_init = Stopped" by (simp add: app_eval_defs)
  have p1: "playback app_playing = Playing" by (simp add: app_eval_defs)
  have p2: "playback (dispatch dev_ok app_playing ClickPause) = Paused" by (simp add: app_eval_defs)
  show ?thesis
    using transport_buttons_match_playback[OF start, of dev_ok]
      transport_buttons_match_playback[OF reachable_app_playing]
      transport_buttons_match_playback[OF step[OF reachable_app_playing, of ClickPause]]
      p0 p1 p2
    by simp
qed

subsection \<open>Log results and the generate button\<close>

lemma load_and_play_btn_gen_play:
  "btn_gen_play (load_and_play_audio D s p) = btn_gen_play s"
  by (simp add: load_and_play_audio_def update_media_buttons_def app_log_def Let_def
      split: option.splits)

text \<open>
  Claim C1, as the program has it. After a run of \<^verbatim>\<open>process_worker_results\<close> the generate
  button is disabled exactly when it was disabled before and every result processed was a
  log message: a log message never enables it, and a \<^verbatim>\<open>model_loaded\<close> or
  \<^verbatim>\<open>generation_complete\<close> result always does.
\<close>

theorem generate_button_after_results:
  "(\<not> btn_gen_play (fst (process_worker_results D s rs))) =
     (\<not> btn_gen_play s \<and> list_all is_log rs)"
proof (induction D s rs rule: process_worker_results.induct)
  case (1 D s)
  then show ?case by simp
next
  case (2 D s msg rs)
  then show ?case by (simp add: app_log_def)
next
  case (3 D s voice rs)
  then show ?case by simp
next
  case (4 D s file_path is_temp rs)
  then show ?case by (simp add: load_and_play_btn_gen_play Let_def)
qed

text \<open>
  The claim as written fails: the button is enabled, a click on it disables it and queues
  the \<^verbatim>\<open>generate\<close> command, the synthesis raises, the worker answers with two log messages,
  and the button is still disabled after they are processed.
\<close>

theorem log_keeps_generate_disabled:
  "snd (generate_speech env_gen_fails worker_amy world_amy ''hello'' None) =
     [Log ''Generating...'', Log ''Gen Error: synthesis failed'']
   \<and> btn_gen_play app_ready
   \<and> cmd_queue (dispatch dev_ok app_ready ClickGenPlay) =
       [LoadModel ''Female (Amy)'', Generate ''hello'' None]
   \<and> \<not> btn_gen_play (dispatch dev_ok app_ready ClickGenPlay)
   \<and> \<not> btn_gen_play (dispatch dev_ok (dispatch dev_ok app_ready ClickGenPlay)
          (Poll [Log ''Generating...'', Log ''Gen Error: synthesis failed'']))"
  by (simp add: app_eval_defs eval_defs env_gen_fails_def)


subsection \<open>The result of a generation\<close>

text \<open>
  Claim C8, as the program has it. For every state of the controller and every non-empty
  path: a \<^verbatim>\<open>generation_complete\<close> result marked temporary loads the file, starts playback
  and makes the state playing when \<^verbatim>\<open>pygame\<close> is present and neither call raises; without
  \<^verbatim>\<open>pygame\<close> it shows an error dialog, and when a call raises it logs a playback error, and
  in both cases the playback state is unchanged. A result not marked temporary shows the
  dialog that the file was saved and leaves the playback state and the device alone. Both
  enable the generate button.
\<close>

theorem audio_ready_playback:
  assumes "p \<noteq> []"
  shows "(HAS_PYGAME D \<and> music_load D p = None \<and> music_play D p = None \<longrightarrow>
           (let s' = fst (process_worker_results D s [GenerationComplete p True]) in
              playback s' = Playing \<and> audio_file s' = Some p
              \<and> mixer s' = mixer s @ [MusicLoad p, MusicPlay]
              \<and> btn_pause s' \<and> btn_stop s' \<and> \<not> btn_resume s'))
       \<and> (\<not> HAS_PYGAME D \<longrightarrow>
           (let s' = fst (process_worker_results D s [GenerationComplete p True]) in
              playback s' = playback s \<and> mixer s' = mixer s \<and> audio_file s' = audio_file s
              \<and> dialogs s' = dialogs s @ [ShowError ''Error'' ''Pygame not installed.'']))
       \<and> (\<forall>err. HAS_PYGAME D \<and> music_load D p = Some err \<longrightarrow>
           (let s' = fst (process_worker_results D s [GenerationComplete p True]) in
              playback s' = playback s \<and> mixer s' = mixer s \<and> audio_file s' = audio_file s
              \<and> log_text s' = log_text (app_log s (''Playback error: '' @ err))))
       \<and> (\<forall>err. HAS_PYGAME D \<and> music_load D p = None \<and> music_play D p = Some err \<longrightarrow>
           (let s' = fst (process_worker_results D s [GenerationComplete p True]) in
              playback s' = playback s \<and> mixer s' = mixer s @ [MusicLoad p]
              \<and> audio_file s' = audio_file s
              \<and> log_text s' = log_text (app_log s (''Playback error: '' @ err))))
       \<and> (let s' = fst (process_worker_results D s [GenerationComplete p False]) in
              playback s' = playback s \<and> mixer s' = mixer s \<and> audio_file s' = audio_file s
              \<and> dialogs s' = dialogs s @ [ShowInfo ''Saved'' (''File saved: '' @ p)])
       \<and> btn_gen_play (fst (process_worker_results D s [GenerationComplete p True]))
       \<and> btn_gen_play (fst (process_worker_results D s [GenerationComplete p False]))"
proof -
  have g: "btn_gen_play (fst (process_worker_results D s [GenerationComplete p True]))
       \<and> btn_gen_play (fst (process_worker_results D s [GenerationComplete p False]))"
    using assms by (simp add: Let_def load_and_play_btn_gen_play)
  show ?thesis
    using assms g
    by (simp add: Let_def load_and_play_audio_def update_media_buttons_def app_log_def playback_def)
qed

theorem audio_ready_playback_witness:
  "playback (fst (process_worker_results dev_ok app_ready [GenerationComplete ''/tmp/tmp0.wav'' True])) = Playing
   \<and> mixer (fst (process_worker_results dev_ok app_ready [GenerationComplete ''/tmp/tmp0.wav'' True])) =
       [MusicLoad ''/tmp/tmp0.wav'', MusicPlay]
   \<and> playback (fst (process_worker_results dev_ok app_playing [GenerationComplete ''/out.wav'' False])) = Playing
   \<and> dialogs (fst (process_worker_results dev_ok app_playing [GenerationComplete ''/out.wav'' False])) =
       [ShowInfo ''Saved'' ''File saved: /out.wav'']"
proof -
  have a: "''/tmp/tmp0.wav'' \<noteq> []" and b: "''/out.wav'' \<noteq> []" by simp_all
  have d: "HAS_PYGAME dev_ok \<and> music_load dev_ok ''/tmp/tmp0.wav'' = None
      \<and> music_play dev_ok ''/tmp/tmp0.wav'' = None"
    by (simp add: dev_ok_def)
  have m: "mixer app_ready = []" "dialogs app_playing = []" "playback app_playing = Playing"
    by (simp_all add: app_eval_defs)
  show ?thesis
    using audio_ready_playback[OF a, of dev_ok app_ready] audio_ready_playback[OF b, of dev_ok app_playing]
      d m
    by (simp add: Let_def)
qed

text \<open>
  The claim as written fails where \<^verbatim>\<open>pygame\<close> is missing: the temporary file is neither
  loaded nor played, and the state stays stopped.
\<close>

theorem audio_ready_without_device:
  "playback (fst (process_worker_results dev_missing app_ready
      [GenerationComplete ''/tmp/tmp0.wav'' True])) = Stopped
   \<and> mixer (fst (process_worker_results dev_missing app_ready
      [GenerationComplete ''/tmp/tmp0.wav'' True])) = []
   \<and> dialogs (fst (process_worker_results dev_missing app_ready
      [GenerationComplete ''/tmp/tmp0.wav'' True])) = [ShowError ''Error'' ''Pygame not installed.'']"
  by (simp add: app_eval_defs)

subsection \<open>The generate button while a command is outstanding\<close>

lemma on_stop_keeps: "btn_gen_play (on_stop D s) = btn_gen_play s \<and> cmd_queue (on_stop D s) = cmd_queue s
   \<and> text_input (on_stop D s) = text_input s"
  by (simp add: on_stop_def update_media_buttons_def Let_def)

lemma handlers_keep_generate:
  "btn_gen_play (on_pause D s) = btn_gen_play s"
  "btn_gen_play (on_resume D s) = btn_gen_play s"
  "btn_gen_play (on_ff D s) = btn_gen_play s"
  "btn_gen_play (on_closing D s) = btn_gen_play s"
  "btn_gen_play (on_save s f) = btn_gen_play s"
  by (simp_all add: on_pause_def on_resume_def on_ff_def on_closing_def on_save_def
      update_media_buttons_def app_log_def Let_def)

lemma on_gen_play_disables: "\<not> btn_gen_play s \<Longrightarrow> \<not> btn_gen_play (on_gen_play D s)"
  by (simp add: on_gen_play_def Let_def)

text \<open>
  Claim C9, as the program has it. \<^verbatim>\<open>change_voice\<close> and \<^verbatim>\<open>on_gen_play\<close> (with a non-empty
  text) disable the generate button when they queue their command. \<^verbatim>\<open>on_save\<close> queues its
  \<^verbatim>\<open>generate\<close> command with the path chosen and leaves the button as it was. A disabled
  button stays disabled under every event but a run of \<^verbatim>\<open>process_worker_results\<close> that
  meets a \<^verbatim>\<open>model_loaded\<close> or \<^verbatim>\<open>generation_complete\<close> result, whichever command that result
  answers.
\<close>

theorem generate_button_while_outstanding:
  shows "(\<not> btn_gen_play (change_voice s v)
          \<and> cmd_queue (change_voice s v) = cmd_queue s @ [LoadModel v])
       \<and> (strip (text_input s) \<noteq> [] \<longrightarrow>
            \<not> btn_gen_play (on_gen_play D s)
            \<and> cmd_queue (on_gen_play D s) = cmd_queue s @ [Generate (strip (text_input s)) None])
       \<and> (strip (text_input s) = [] \<longrightarrow> on_gen_play D s = s)
       \<and> btn_gen_play (on_save s f) = btn_gen_play s
       \<and> cmd_queue (on_save s f) =
           (if strip (text_input s) \<noteq> [] \<and> f \<noteq> []
            then cmd_queue s @ [Generate (strip (text_input s)) (Some f)] else cmd_queue s)
       \<and> (\<not> btn_gen_play s \<longrightarrow>
            btn_gen_play (dispatch D s ev) =
              (case ev of Poll rs \<Rightarrow> \<not> list_all is_log rs | _ \<Rightarrow> False))"
proof -
  have 1: "\<not> btn_gen_play (change_voice s v)
          \<and> cmd_queue (change_voice s v) = cmd_queue s @ [LoadModel v]"
    by (simp add: change_voice_def)
  have 2: "strip (text_input s) \<noteq> [] \<longrightarrow>
            \<not> btn_gen_play (on_gen_play D s)
            \<and> cmd_queue (on_gen_play D s) = cmd_queue s @ [Generate (strip (text_input s)) None]"
    by (simp add: on_gen_play_def Let_def on_stop_keeps)
  have 3: "strip (text_input s) = [] \<longrightarrow> on_gen_play D s = s"
    by (simp add: on_gen_play_def Let_def)
  have 4: "btn_gen_play (on_save s f) = btn_gen_play s" by (simp add: handlers_keep_generate)
  have 5: "cmd_queue (on_save s f) =
           (if strip (text_input s) \<noteq> [] \<and> f \<noteq> []
            then cmd_queue s @ [Generate (strip (text_input s)) (Some f)] else cmd_queue s)"
    by (simp add: on_save_def Let_def)
  have 6: "\<not> btn_gen_play s \<longrightarrow>
            btn_gen_play (dispatch D s ev) =
              (case ev of Poll rs \<Rightarrow> \<not> list_all is_log rs | _ \<Rightarrow> False)"
  proof
    assume d: "\<not> btn_gen_play s"
    show "btn_gen_play (dispatch D s ev) =
              (case ev of Poll rs \<Rightarrow> \<not> list_all is_log rs | _ \<Rightarrow> False)"
    proof (cases ev)
      case (Poll rs)
      have "(\<not> btn_gen_play (fst (process_worker_results D s rs))) = (\<not> btn_gen_play s \<and> list_all is_log rs)"
        by (induction D s rs rule: process_worker_results.induct)
          (simp_all add: app_log_def load_and_play_btn_gen_play Let_def)
      then show ?thesis using d Poll by auto
    qed (use d in \<open>simp_all add: handlers_keep_generate on_stop_keeps on_gen_play_disables change_voice_def\<close>)
  qed
  show ?thesis using 1 2 3 4 5 6 by blast
qed

theorem generate_button_while_outstanding_witness:
  "\<not> btn_gen_play (on_gen_play dev_ok app_ready)
   \<and> cmd_queue (on_gen_play dev_ok app_ready) = [LoadModel ''Female (Amy)'', Generate ''hello'' None]
   \<and> \<not> btn_gen_play (dispatch dev_ok (on_gen_play dev_ok app_ready) (Poll [Log ''Generating...'']))
   \<and> \<not> btn_gen_play (dispatch dev_ok (on_gen_play dev_ok app_ready) ClickStop)
   \<and> btn_gen_play (dispatch dev_ok (on_gen_play dev_ok app_ready)
        (Poll [Log ''Generating...'', GenerationComplete ''/tmp/tmp0.wav'' True]))"
proof -
  have t: "strip (text_input app_ready) = ''hello''" "strip (text_input app_ready) \<noteq> []"
    by (simp_all add: app_eval_defs)
  have q: "cmd_queue app_ready = [LoadModel ''Female (Amy)'']" by (simp add: app_eval_defs)
  have g: "\<not> btn_gen_play (on_gen_play dev_ok app_ready)"
    using generate_button_while_outstanding[of app_ready _ dev_ok] t by simp
  show ?thesis
    using generate_button_while_outstanding[of app_ready _ dev_ok] t q
      generate_button_while_outstanding[of "on_gen_play dev_ok app_ready" _ dev_ok _ "Poll [Log ''Generating...'']"]
      generate_button_while_outstanding[of "on_gen_play dev_ok app_ready" _ dev_ok _ ClickStop]
      generate_button_while_outstanding[of "on_gen_play dev_ok app_ready" _ dev_ok _
        "Poll [Log ''Generating...'', GenerationComplete ''/tmp/tmp0.wav'' True]"]
      g
    by simp
qed

text \<open>
  The claim as written fails for saving: the button is enabled before the click on Save and
  still enabled after the \<^verbatim>\<open>generate\<close> command with the path was queued.
\<close>

theorem save_leaves_generate_enabled:
  "btn_gen_play app_ready
   \<and> btn_gen_play (dispatch dev_ok app_ready (ClickSave ''/out.wav''))
   \<and> cmd_queue (dispatch dev_ok app_ready (ClickSave ''/out.wav'')) =
       [LoadModel ''Female (Amy)'', Generate ''hello'' (Some ''/out.wav'')]"
  by (simp add: app_eval_defs)

end
